theory Spec2Isabelle
  imports Complex_Main "HOL-Library.AList" "HOL-Library.Char_ord" "HOL-Library.List_Lexorder"
begin

section \<open>Fiducial marker statistics (scripts/tools.py)\<close>

text \<open>
  A shallow embedding of \<^verbatim>\<open>pivot_measures\<close>, \<^verbatim>\<open>compute_angle\<close>,
  \<^verbatim>\<open>compute_statistics\<close> and \<^verbatim>\<open>nice_table\<close>.

  Numbers: a finite float is idealised as a real number (no rounding error, no
  infinities, no signed zero); the missing value NaN of pandas is kept as a value of its
  own, \<open>None\<close>. Strings are lists of characters, one \<open>char\<close> per code point; the only
  character outside ASCII that the program writes is the plus-minus sign U+00B1.

  The operations of pandas, numpy and scipy that the program calls are written out as
  functions, following their documented behaviour on the values the program gives them.
  The input table has all the columns the program reads: a report is a total function
  from column names to values, so a missing column cannot be expressed.
\<close>

subsection \<open>Floats and the pandas reductions\<close>

type_synonym pyfloat = "real option"

datatype error = ValueError | TypeError

text \<open>\<^verbatim>\<open>Series.isna()\<close>, and the values that a reduction with \<^verbatim>\<open>skipna=True\<close> keeps.\<close>

definition isna :: "pyfloat \<Rightarrow> bool" where
  "isna v = (v = None)"

fun present :: "pyfloat list \<Rightarrow> real list" where
  "present [] = []"
| "present (None # vs) = present vs"
| "present (Some r # vs) = r # present vs"

text \<open>\<^verbatim>\<open>np.count_nonzero\<close> of a boolean array.\<close>

definition count_nonzero :: "bool list \<Rightarrow> nat" where
  "count_nonzero bs = length (filter (\<lambda>b. b) bs)"

text \<open>Mean, sample standard deviation (\<^verbatim>\<open>ddof=1\<close>), median and minimum of real lists.\<close>

definition mean :: "real list \<Rightarrow> real" where
  "mean ys = sum_list ys / real (length ys)"

definition sample_std :: "real list \<Rightarrow> real" where
  "sample_std ys = sqrt (sum_list (map (\<lambda>y. (y - mean ys)\<^sup>2) ys) / real (length ys - 1))"

definition median :: "real list \<Rightarrow> real" where
  "median ys =
     (let s = sort ys; n = length s
      in if odd n then s ! (n div 2) else (s ! (n div 2 - 1) + s ! (n div 2)) / 2)"

text \<open>
  \<^verbatim>\<open>Series.mean()\<close>, \<^verbatim>\<open>Series.std()\<close>, \<^verbatim>\<open>Series.median()\<close> and \<^verbatim>\<open>Series.min()\<close>:
  missing values are skipped; the result is NaN when nothing is left, and the standard
  deviation is NaN when fewer than two values are left.
\<close>

definition series_mean :: "pyfloat list \<Rightarrow> pyfloat" where
  "series_mean vs = (let ys = present vs in if ys = [] then None else Some (mean ys))"

definition series_std :: "pyfloat list \<Rightarrow> pyfloat" where
  "series_std vs = (let ys = present vs in if length ys \<le> 1 then None else Some (sample_std ys))"

definition series_median :: "pyfloat list \<Rightarrow> pyfloat" where
  "series_median vs = (let ys = present vs in if ys = [] then None else Some (median ys))"

definition series_min :: "pyfloat list \<Rightarrow> pyfloat" where
  "series_min vs = (let ys = present vs in if ys = [] then None else Some (Min (set ys)))"

text \<open>Arithmetic on floats: NaN propagates.\<close>

definition py_neg :: "pyfloat \<Rightarrow> pyfloat" where
  "py_neg v = map_option uminus v"

definition py_sub :: "pyfloat \<Rightarrow> pyfloat \<Rightarrow> pyfloat" where
  "py_sub v w = (case (v, w) of (Some a, Some b) \<Rightarrow> Some (a - b) | _ \<Rightarrow> None)"

text \<open>\<^verbatim>\<open>int(v)\<close> of a float: truncation toward zero; \<^verbatim>\<open>int(nan)\<close> raises.\<close>

definition py_int :: "pyfloat \<Rightarrow> error + int" where
  "py_int v = (case v of None \<Rightarrow> Inl ValueError
                | Some r \<Rightarrow> Inr (if 0 \<le> r then \<lfloor>r\<rfloor> else \<lceil>r\<rceil>))"

text \<open>\<^verbatim>\<open>np.arctan2(y, x)\<close>, \<^verbatim>\<open>np.rad2deg\<close>, the float remainder and \<^verbatim>\<open>scipy.stats.circmean\<close>
  (range \<open>[0, 2\<pi>)\<close>, NaN propagated).\<close>

definition arctan2 :: "pyfloat \<Rightarrow> pyfloat \<Rightarrow> pyfloat" where
  "arctan2 vy vx =
     (case (vy, vx) of
        (Some y, Some x) \<Rightarrow>
          Some (if 0 < x then arctan (y / x)
                else if x < 0 then (if 0 \<le> y then arctan (y / x) + pi else arctan (y / x) - pi)
                else if 0 < y then pi / 2
                else if y < 0 then - pi / 2
                else 0)
      | _ \<Rightarrow> None)"

definition rad2deg :: "pyfloat \<Rightarrow> pyfloat" where
  "rad2deg v = map_option (\<lambda>r. r * 180 / pi) v"

definition py_mod :: "pyfloat \<Rightarrow> real \<Rightarrow> pyfloat" where
  "py_mod v m = map_option (\<lambda>r. r - m * of_int \<lfloor>r / m\<rfloor>) v"

definition circmean :: "pyfloat list \<Rightarrow> pyfloat" where
  "circmean vs =
     (if None \<in> set vs \<or> vs = [] then None
      else py_mod (arctan2 (Some (sum_list (map sin (present vs))))
                           (Some (sum_list (map cos (present vs))))) (2 * pi))"

subsection \<open>Formatting\<close>

definition digit :: "nat \<Rightarrow> char" where
  "digit d = ''0123456789'' ! d"

text \<open>\<^verbatim>\<open>str(n)\<close> of a natural number.\<close>

fun str_nat :: "nat \<Rightarrow> string" where
  "str_nat n = (if n < 10 then [digit n] else str_nat (n div 10) @ [digit (n mod 10)])"

declare str_nat.simps [simp del]

definition round_half_even :: "real \<Rightarrow> int" where
  "round_half_even r =
     (let f = \<lfloor>r\<rfloor>; d = r - of_int f
      in if d < 1 / 2 then f else if 1 / 2 < d then f + 1 else if even f then f else f + 1)"

text \<open>The format \<^verbatim>\<open>f"{v:.3f}"\<close>: three decimals, \<^verbatim>\<open>nan\<close> for NaN.\<close>

definition fmt3 :: "pyfloat \<Rightarrow> string" where
  "fmt3 v =
     (case v of
        None \<Rightarrow> ''nan''
      | Some r \<Rightarrow>
          (let n = nat (round_half_even (\<bar>r\<bar> * 1000))
           in (if r < 0 then ''-'' else '''') @ str_nat (n div 1000) @ ''.''
              @ [digit (n mod 1000 div 100), digit (n mod 100 div 10), digit (n mod 10)]))"

text \<open>The separator \<^verbatim>\<open>' \<plusminus> '\<close> is written with the character U+00B1.\<close>

definition pm :: string where
  "pm = [CHR '' '', CHR 0xB1, CHR '' '']"

definition str_int :: "int \<Rightarrow> string" where
  "str_int i = (if i < 0 then ''-'' @ str_nat (nat (- i)) else str_nat (nat i))"

subsection \<open>Tables and the object store\<close>

text \<open>
  A report is one row of the input table: a value, possibly missing, for each column name.
  A row of a pivoted table has the marker name, x, y and the angle. A table of strings
  (\<^verbatim>\<open>dists\<close>, \<^verbatim>\<open>fids\<close>) is a list of rows, each with its index label and its cells by
  column name, in the order in which rows and columns were added.
\<close>

type_synonym report = "string \<Rightarrow> pyfloat"

record obs =
  fid_name :: string
  xval :: pyfloat
  yval :: pyfloat
  angle :: pyfloat

type_synonym sframe = "(string \<times> (string \<times> string) list) list"

type_synonym series = "(string \<times> pyfloat) list"

text \<open>
  DataFrames and Series are objects: the store is the list of the objects created so
  far, an object's address is its position, creating an object appends it, and an
  assignment into an object replaces the object at its address.
\<close>

datatype object =
    Reports "report list"
  | PivotedXY "(string \<times> pyfloat \<times> pyfloat) list"
  | Pivoted "obs list"
  | Frame sframe
  | Series series

type_synonym addr = nat

type_synonym store = "object list"

definition new_obj :: "store \<Rightarrow> object \<Rightarrow> addr \<times> store" where
  "new_obj h v = (length h, h @ [v])"

definition reports_at :: "store \<Rightarrow> addr \<Rightarrow> report list" where
  "reports_at h p = (case h ! p of Reports rs \<Rightarrow> rs | _ \<Rightarrow> [])"

definition xy_at :: "store \<Rightarrow> addr \<Rightarrow> (string \<times> pyfloat \<times> pyfloat) list" where
  "xy_at h p = (case h ! p of PivotedXY rs \<Rightarrow> rs | _ \<Rightarrow> [])"

definition pivoted_at :: "store \<Rightarrow> addr \<Rightarrow> obs list" where
  "pivoted_at h p = (case h ! p of Pivoted rs \<Rightarrow> rs | _ \<Rightarrow> [])"

definition frame_at :: "store \<Rightarrow> addr \<Rightarrow> sframe" where
  "frame_at h p = (case h ! p of Frame fr \<Rightarrow> fr | _ \<Rightarrow> [])"

definition series_at :: "store \<Rightarrow> addr \<Rightarrow> series" where
  "series_at h p = (case h ! p of Series s \<Rightarrow> s | _ \<Rightarrow> [])"

text \<open>\<^verbatim>\<open>info[meas]\<close>: the column of the table at address \<open>info\<close>, read from the store.\<close>

definition column :: "store \<Rightarrow> addr \<Rightarrow> string \<Rightarrow> pyfloat list" where
  "column h info meas = map (\<lambda>row. row meas) (reports_at h info)"

text \<open>\<^verbatim>\<open>df.loc[row, col] = v\<close>: sets the cell, adding the row at the end when the label is new.\<close>

definition loc_set :: "sframe \<Rightarrow> string \<Rightarrow> string \<Rightarrow> string \<Rightarrow> sframe" where
  "loc_set fr row col v =
     (if row \<in> set (map fst fr)
      then map (\<lambda>(k, cells). if k = row then (k, AList.update col v cells) else (k, cells)) fr
      else fr @ [(row, [(col, v)])])"

text \<open>
  \<^verbatim>\<open>df[col] = s\<close> for a Series of strings: an empty table takes the index of the Series,
  otherwise the values are aligned by label (a label the Series lacks gives NaN).
\<close>

definition set_column :: "sframe \<Rightarrow> string \<Rightarrow> (string \<times> string) list \<Rightarrow> sframe" where
  "set_column fr col s =
     (if fr = [] then map (\<lambda>(k, v). (k, [(col, v)])) s
      else map (\<lambda>(k, cells).
             (k, AList.update col (case map_of s k of Some v \<Rightarrow> v | None \<Rightarrow> ''nan'') cells)) fr)"

text \<open>
  \<^verbatim>\<open>df.reset_index(names='markers').replace(d).set_index('markers')\<close>: every value of the
  table, index labels included, that is a key of \<open>d\<close> is replaced.
\<close>

definition replace_value :: "(string \<times> string) list \<Rightarrow> string \<Rightarrow> string" where
  "replace_value d s = (case map_of d s of Some t \<Rightarrow> t | None \<Rightarrow> s)"

definition relabel :: "(string \<times> string) list \<Rightarrow> sframe \<Rightarrow> sframe" where
  "relabel d fr =
     map (\<lambda>(k, cells). (replace_value d k, map (\<lambda>(c, v). (c, replace_value d v)) cells)) fr"

text \<open>\<^verbatim>\<open>dropna(subset=['x', 'y'], how='all')\<close>.\<close>

definition dropna_all :: "obs list \<Rightarrow> obs list" where
  "dropna_all rows = filter (\<lambda>r. \<not> (isna (xval r) \<and> isna (yval r))) rows"

text \<open>\<^verbatim>\<open>groupby('name')\<close>: the groups in the order of their sorted keys, and a reduction
  of one column in each group.\<close>

definition groupby :: "obs list \<Rightarrow> (string \<times> obs list) list" where
  "groupby rows =
     map (\<lambda>k. (k, filter (\<lambda>r. fid_name r = k) rows)) (sort (remdups (map fid_name rows)))"

definition group_apply ::
  "(pyfloat list \<Rightarrow> 'a) \<Rightarrow> (obs \<Rightarrow> pyfloat) \<Rightarrow> (string \<times> obs list) list \<Rightarrow> (string \<times> 'a) list" where
  "group_apply f col grouped = map (\<lambda>(k, g). (k, f (map col g))) grouped"

text \<open>\<^verbatim>\<open>Series.count()\<close>: the number of values that are not missing.\<close>

definition series_count :: "pyfloat list \<Rightarrow> nat" where
  "series_count vs = length (present vs)"

text \<open>Elementwise operations on Series that share their index.\<close>

definition series_map :: "('a \<Rightarrow> 'b) \<Rightarrow> (string \<times> 'a) list \<Rightarrow> (string \<times> 'b) list" where
  "series_map f s = map (\<lambda>(k, v). (k, f v)) s"

definition series_add :: "(string \<times> string) list \<Rightarrow> (string \<times> string) list \<Rightarrow> (string \<times> string) list" where
  "series_add s t = map (\<lambda>((k, v), (_, w)). (k, v @ w)) (zip s t)"

subsection \<open>The program\<close>

definition fid_names :: "string list" where
  "fid_names = map (\<lambda>nn. ''P'' @ str_nat nn) [1..<9]"

definition col_names :: "string list" where
  "col_names = [''ll'', ''ur'', ''ul'', ''lr'', ''ml'', ''mr'', ''mt'', ''mb'']"

definition compute_angle :: "string \<times> pyfloat \<times> pyfloat \<Rightarrow> pyfloat" where
  "compute_angle row = arctan2 (snd (snd row)) (fst (snd row))"

definition pivot_measures :: "store \<Rightarrow> report \<Rightarrow> addr \<times> store" where
  "pivot_measures h row =
     (let x_vals = map (\<lambda>cc. row (cc @ ''x'')) col_names;
          y_vals = map (\<lambda>cc. row (cc @ ''y'')) col_names;
          (pivoted, h) = new_obj h (PivotedXY (zip fid_names (zip x_vals y_vals)));
          h = h[pivoted := Pivoted (map (\<lambda>r. \<lparr>fid_name = fst r, xval = fst (snd r),
                                             yval = snd (snd r), angle = compute_angle r\<rparr>)
                                       (xy_at h pivoted))]
      in (pivoted, h))"

text \<open>The list comprehension \<^verbatim>\<open>[pivot_measures(row) for row in info.itertuples()]\<close>.\<close>

fun pivot_each :: "store \<Rightarrow> report list \<Rightarrow> addr list \<times> store" where
  "pivot_each h [] = ([], h)"
| "pivot_each h (row # rows) =
     (let (p, h) = pivot_measures h row;
          (ps, h) = pivot_each h rows
      in (p # ps, h))"

text \<open>\<^verbatim>\<open>pd.concat\<close> raises ValueError when there is nothing to concatenate.\<close>

definition pd_concat :: "store \<Rightarrow> addr list \<Rightarrow> error + obs list" where
  "pd_concat h ps = (if ps = [] then Inl ValueError else Inr (concat (map (pivoted_at h) ps)))"

record result =
  dists :: sframe
  fids :: "sframe option"
  nrep_dists :: int
  nrep_fids :: int

definition measures :: "string list" where
  "measures = [''lr_dist'', ''tb_dist'', ''llur_dist'', ''ullr_dist'']"

definition pair_labels :: "(string \<times> string) list" where
  "pair_labels = [(''lr_dist'', ''P5 - P6''), (''tb_dist'', ''P7 - P8''),
                  (''llur_dist'', ''P1 - P2''), (''ullr_dist'', ''P3 - P4'')]"

text \<open>The body of the loop over the four distance fields (lines 58 to 60).\<close>

definition dists_step :: "addr \<Rightarrow> addr \<Rightarrow> string \<Rightarrow> store \<Rightarrow> store" where
  "dists_step info dists_p meas h =
     (if count_nonzero (map (\<lambda>v. \<not> isna v) (column h info meas)) > 0
      then
        (let h = h[dists_p := Frame (loc_set (frame_at h dists_p) meas ''mean''
                     (fmt3 (series_mean (column h info meas)) @ pm
                      @ fmt3 (series_std (column h info meas))))];
             h = h[dists_p := Frame (loc_set (frame_at h dists_p) meas ''median''
                     (fmt3 (series_median (column h info meas))))]
         in h)
      else h)"

text \<open>The recentring of the means: \<^verbatim>\<open>xmean - xmean.min()\<close> (line 75) and
  \<^verbatim>\<open>-ymean - (-ymean).min()\<close> (line 78).\<close>

definition recenter_x :: "series \<Rightarrow> series" where
  "recenter_x xmean = series_map (\<lambda>v. py_sub v (series_min (map snd xmean))) xmean"

definition recenter_y :: "series \<Rightarrow> series" where
  "recenter_y ymean =
     series_map (\<lambda>v. py_sub (py_neg v) (series_min (map snd (series_map py_neg ymean)))) ymean"

text \<open>
  The branch \<^verbatim>\<open>len(pivoted) > 0\<close> (lines 72 to 87): the location table and the
  report count. \<^verbatim>\<open>xmean -= xmean.min()\<close> updates the Series in place.
\<close>

definition location_statistics :: "store \<Rightarrow> addr \<Rightarrow> (error + sframe \<times> int) \<times> store" where
  "location_statistics h pivoted_p =
     (let grouped = groupby (pivoted_at h pivoted_p)
      in case py_int (series_median (map (\<lambda>(k, c). Some (real c))
                                         (group_apply series_count xval grouped))) of
           Inl e \<Rightarrow> (Inl e, h)
         | Inr n \<Rightarrow>
            (let (xmean_p, h) = new_obj h (Series (group_apply series_mean xval grouped));
                 h = h[xmean_p := Series (recenter_x (series_at h xmean_p))];
                 ymean = group_apply series_mean yval grouped;
                 ymean = recenter_y ymean;
                 std_x = group_apply series_std xval grouped;
                 std_y = group_apply series_std yval grouped;
                 (fids_p, h) = new_obj h (Frame []);
                 h = h[fids_p := Frame (set_column (frame_at h fids_p) ''x''
                        (series_add (series_map (\<lambda>s. fmt3 s @ pm) (series_at h xmean_p))
                                    (series_map fmt3 std_x)))];
                 h = h[fids_p := Frame (set_column (frame_at h fids_p) ''y''
                        (series_add (series_map (\<lambda>s. fmt3 s @ pm) ymean) (series_map fmt3 std_y)))];
                 h = h[fids_p := Frame (set_column (frame_at h fids_p) ''angle''
                        (series_map (\<lambda>s. fmt3 (py_mod (rad2deg s) 360))
                                    (group_apply circmean angle grouped)))]
             in (Inr (frame_at h fids_p, n), h)))"

text \<open>
  \<^verbatim>\<open>compute_statistics(info)\<close>, where \<open>info\<close> is the address of the input table. The
  result holds the contents of the two returned tables; the second component is the
  store after the call. An address that holds no table of reports gives TypeError; the
  table without rows gives the ValueError of \<^verbatim>\<open>pd.concat\<close>.
\<close>

definition compute_statistics :: "store \<Rightarrow> addr \<Rightarrow> (error + result) \<times> store" where
  "compute_statistics h info =
     (case (if info < length h then h ! info else Frame []) of
        Reports _ \<Rightarrow>
          (let (dists_p, h) = new_obj h (Frame []);
               n_dists = int (length (reports_at h info));
               h = fold (dists_step info dists_p) measures h;
               (dists_p, h) = new_obj h (Frame (relabel pair_labels (frame_at h dists_p)));
               (ps, h) = pivot_each h (reports_at h info)
           in case pd_concat h ps of
                Inl e \<Rightarrow> (Inl e, h)
              | Inr rows \<Rightarrow>
                 (let (pivoted_p, h) = new_obj h (Pivoted (dropna_all rows))
                  in if length (pivoted_at h pivoted_p) > 0
                     then (case location_statistics h pivoted_p of
                             (Inl e, h) \<Rightarrow> (Inl e, h)
                           | (Inr (f, n_fids), h) \<Rightarrow>
                               (Inr \<lparr>dists = frame_at h dists_p, fids = Some f,
                                     nrep_dists = n_dists, nrep_fids = n_fids\<rparr>, h))
                     else (Inr \<lparr>dists = frame_at h dists_p, fids = None,
                                nrep_dists = n_dists, nrep_fids = 0\<rparr>, h)))
      | _ \<Rightarrow> (Inl TypeError, h))"

text \<open>
  \<^verbatim>\<open>nice_table(info)\<close>. The rendering \<^verbatim>\<open>DataFrame.to_markdown(tablefmt='grid')\<close> belongs
  to the tabulate library and is a parameter. \<^verbatim>\<open>print\<close> appends the text and a newline to
  the standard output.
\<close>

record world =
  objects :: store
  stdout :: string

definition replace_char :: "char \<Rightarrow> char \<Rightarrow> string \<Rightarrow> string" where
  "replace_char old new s = map (\<lambda>c. if c = old then new else c) s"

definition print :: "string \<Rightarrow> string \<Rightarrow> string" where
  "print out s = out @ s @ [CHR 0x0A]"

definition nice_table :: "(sframe \<Rightarrow> string) \<Rightarrow> world \<Rightarrow> addr \<Rightarrow> (error + unit) \<times> world" where
  "nice_table to_markdown w info =
     (case compute_statistics (objects w) info of
        (Inl e, h) \<Rightarrow> (Inl e, w\<lparr>objects := h\<rparr>)
      | (Inr r, h) \<Rightarrow>
          (let outstr = ''**Marker Separation (n = '' @ str_int (nrep_dists r) @ '' reports)**''
                        @ [CHR 0x0A, CHR 0x0A] @ to_markdown (dists r);
               outstr = (case fids r of
                           Some f \<Rightarrow> outstr @ [CHR 0x0A, CHR 0x0A]
                                     @ ''**Marker Location (n = '' @ str_int (nrep_fids r)
                                     @ '' reports)**'' @ [CHR 0x0A, CHR 0x0A] @ to_markdown f
                         | None \<Rightarrow> outstr)
           in (Inr (), \<lparr>objects = h,
                        stdout = print (stdout w) (replace_char (CHR '':'') (CHR ''-'') outstr)\<rparr>)))"

subsection \<open>Reference functions\<close>

text \<open>
  What each stage of \<^verbatim>\<open>compute_statistics\<close> computes, as functions of the rows of the
  input table alone: the rows of the separation table before and after relabelling, the
  pivoted rows of one report and of the table after the drop, the per-marker counts of
  x values, the location table, and the outcome of the call. The lemmas that follow the
  definitions show that the program above, run on any store, computes exactly these.
\<close>

definition dist_row :: "report list \<Rightarrow> string \<Rightarrow> sframe" where
  "dist_row rows meas =
     (let c = map (\<lambda>row. row meas) rows
      in if present c = [] then []
         else [(meas, [(''mean'', fmt3 (series_mean c) @ pm @ fmt3 (series_std c)),
                       (''median'', fmt3 (series_median c))])])"

definition dists_table :: "report list \<Rightarrow> sframe" where
  "dists_table rows = relabel pair_labels (concat (map (dist_row rows) measures))"

definition pivot_row :: "report \<Rightarrow> obs list" where
  "pivot_row row =
     map (\<lambda>r. \<lparr>fid_name = fst r, xval = fst (snd r), yval = snd (snd r), angle = compute_angle r\<rparr>)
         (zip fid_names (zip (map (\<lambda>cc. row (cc @ ''x'')) col_names)
                             (map (\<lambda>cc. row (cc @ ''y'')) col_names)))"

definition pivoted_table :: "report list \<Rightarrow> obs list" where
  "pivoted_table rows = dropna_all (concat (map pivot_row rows))"

definition x_counts :: "obs list \<Rightarrow> real list" where
  "x_counts pv = map (\<lambda>(k, g). real (length (present (map xval g)))) (groupby pv)"

definition fids_table :: "obs list \<Rightarrow> sframe" where
  "fids_table pv =
     (let grouped = groupby pv;
          sx = series_add (series_map (\<lambda>s. fmt3 s @ pm) (recenter_x (group_apply series_mean xval grouped)))
                          (series_map fmt3 (group_apply series_std xval grouped));
          sy = series_add (series_map (\<lambda>s. fmt3 s @ pm) (recenter_y (group_apply series_mean yval grouped)))
                          (series_map fmt3 (group_apply series_std yval grouped));
          sa = series_map (\<lambda>s. fmt3 (py_mod (rad2deg s) 360)) (group_apply circmean angle grouped)
      in set_column (set_column (set_column [] ''x'' sx) ''y'' sy) ''angle'' sa)"

definition statistics :: "report list \<Rightarrow> error + result" where
  "statistics rows =
     (if rows = [] then Inl ValueError
      else if pivoted_table rows = []
      then Inr \<lparr>dists = dists_table rows, fids = None,
                nrep_dists = int (length rows), nrep_fids = 0\<rparr>
      else Inr \<lparr>dists = dists_table rows, fids = Some (fids_table (pivoted_table rows)),
                nrep_dists = int (length rows), nrep_fids = \<lfloor>median (x_counts (pivoted_table rows))\<rfloor>\<rparr>)"

subsection \<open>Sample inputs\<close>

text \<open>A report with every field missing, and a stand-in for the markdown rendering.\<close>

definition blank :: report where
  "blank = (\<lambda>_. None)"

definition sample_markdown :: "sframe \<Rightarrow> string" where
  "sample_markdown fr = ''|:--|'' @ concat (map (\<lambda>(k, cells). k @ ''|'') fr)"

subsection \<open>The report count as the specification words it\<close>



subsection \<open>The program computes the reference functions\<close>

lemma count_nonzero_isna:
  "(count_nonzero (map (\<lambda>v. \<not> isna v) vs) = 0) = (present vs = [])"
  by (induction vs rule: present.induct) (simp_all add: count_nonzero_def isna_def)

lemma map_other_rows:
  "meas \<notin> fst ` set fr \<Longrightarrow>
   map (\<lambda>(k, cells). if k = meas then (k, f cells) else (k, cells)) fr = fr"
  by (induction fr) auto

lemma loc_set_new: "row \<notin> fst ` set fr \<Longrightarrow> loc_set fr row col v = fr @ [(row, [(col, v)])]"
  by (simp add: loc_set_def)

lemma loc_set_last:
  "row \<notin> fst ` set fr \<Longrightarrow>
   loc_set (fr @ [(row, cells)]) row col v = fr @ [(row, AList.update col v cells)]"
  by (simp add: loc_set_def map_other_rows)

lemma dists_step_append:
  assumes "info < length h" "h ! info = Reports rows" "meas \<notin> fst ` set fr"
  shows "dists_step info (length h) meas (h @ [Frame fr]) = h @ [Frame (fr @ dist_row rows meas)]"
proof -
  have c: "\<And>fr'. column (h @ [Frame fr']) info meas = map (\<lambda>row. row meas) rows"
    using assms(1,2) by (simp add: column_def reports_at_def nth_append)
  have f: "\<And>fr'. frame_at (h @ [Frame fr']) (length h) = fr'"
    by (simp add: frame_at_def)
  show ?thesis
  proof (cases "present (map (\<lambda>row. row meas) rows) = []")
    case True
    then have "count_nonzero (map (\<lambda>v. \<not> isna v) (map (\<lambda>row. row meas) rows)) = 0"
      using count_nonzero_isna [of "map (\<lambda>row. row meas) rows"] by simp
    then show ?thesis
      using True by (simp add: dists_step_def c dist_row_def del: map_map)
  next
    case False
    then have "0 < count_nonzero (map (\<lambda>v. \<not> isna v) (map (\<lambda>row. row meas) rows))"
      using count_nonzero_isna [of "map (\<lambda>row. row meas) rows"] by simp
    then show ?thesis
      using False assms(3)
      by (simp add: dists_step_def c f Let_def loc_set_new loc_set_last dist_row_def
          del: map_map)
  qed
qed

lemma dist_row_labels: "m \<noteq> m' \<Longrightarrow> m \<notin> fst ` set (dist_row rows m')"
  by (simp add: dist_row_def Let_def)

lemma fold_dists_step:
  assumes "info < length h" "h ! info = Reports rows"
  shows "fold (dists_step info (length h)) measures (h @ [Frame []])
         = h @ [Frame (concat (map (dist_row rows) measures))]"
proof -
  note l = dist_row_labels
  have 1: "dists_step info (length h) ''lr_dist'' (h @ [Frame []])
           = h @ [Frame (dist_row rows ''lr_dist'')]"
    using dists_step_append [OF assms, of "''lr_dist''" "[]"] by simp
  have 2: "dists_step info (length h) ''tb_dist'' (h @ [Frame (dist_row rows ''lr_dist'')])
           = h @ [Frame (dist_row rows ''lr_dist'' @ dist_row rows ''tb_dist'')]"
    by (rule dists_step_append [OF assms]) (simp add: l)
  have 3: "dists_step info (length h) ''llur_dist''
             (h @ [Frame (dist_row rows ''lr_dist'' @ dist_row rows ''tb_dist'')])
           = h @ [Frame (dist_row rows ''lr_dist'' @ dist_row rows ''tb_dist''
                         @ dist_row rows ''llur_dist'')]"
    using dists_step_append [OF assms, of "''llur_dist''"
        "dist_row rows ''lr_dist'' @ dist_row rows ''tb_dist''"]
    by (simp add: l image_Un)
  have 4: "dists_step info (length h) ''ullr_dist''
             (h @ [Frame (dist_row rows ''lr_dist'' @ dist_row rows ''tb_dist''
                         @ dist_row rows ''llur_dist'')])
           = h @ [Frame (dist_row rows ''lr_dist'' @ dist_row rows ''tb_dist''
                         @ dist_row rows ''llur_dist'' @ dist_row rows ''ullr_dist'')]"
    using dists_step_append [OF assms, of "''ullr_dist''"
        "dist_row rows ''lr_dist'' @ dist_row rows ''tb_dist'' @ dist_row rows ''llur_dist''"]
    by (simp add: l image_Un)
  show ?thesis
    by (simp add: measures_def 1 2 3 4)
qed

lemma pivot_measures_eq:
  "pivot_measures h row = (length h, h @ [Pivoted (pivot_row row)])"
  by (simp add: pivot_measures_def new_obj_def xy_at_def pivot_row_def Let_def)

lemma pivot_each_eq:
  "pivot_each h rows
   = ([length h..<length h + length rows], h @ map (\<lambda>row. Pivoted (pivot_row row)) rows)"
proof (induction rows arbitrary: h)
  case Nil
  then show ?case by simp
next
  case (Cons row rows)
  have u: "[length h..<length h + length (row # rows)]
           = length h # [Suc (length h)..<Suc (length h) + length rows]"
    by (subst upt_rec) simp
  show ?case
    unfolding u by (simp add: pivot_measures_eq Cons.IH)
qed

lemma read_pivoted:
  "map (pivoted_at (h @ map (\<lambda>row. Pivoted (pivot_row row)) rows)) [length h..<length h + length rows]
   = map pivot_row rows"
  by (rule nth_equalityI) (simp_all add: pivoted_at_def nth_append)


lemma present_map_Some: "present (map (\<lambda>x. Some (f x)) xs) = map f xs"
  by (induction xs) simp_all

lemma median_nonneg:
  assumes "ys \<noteq> []" "\<forall>y\<in>set ys. 0 \<le> y"
  shows "0 \<le> median ys"
proof -
  let ?s = "sort ys"
  have n: "0 < length ?s" using assms(1) by simp
  have nn: "\<And>i. i < length ?s \<Longrightarrow> 0 \<le> ?s ! i"
  proof -
    fix i assume "i < length ?s"
    then have "?s ! i \<in> set ?s" by (rule nth_mem)
    then show "0 \<le> ?s ! i" using assms(2) by simp
  qed
  have a: "0 \<le> ?s ! (length ?s div 2)" using n by (intro nn) simp
  have b: "0 \<le> ?s ! (length ?s div 2 - 1)" using n by (intro nn) linarith
  show ?thesis
    using a b by (simp add: median_def Let_def)
qed

lemma groupby_Nil: "(groupby pv = []) = (pv = [])"
  by (simp add: groupby_def) (metis length_0_conv length_sort list.map_disc_iff remdups_eq_nil_iff)

lemma x_counts_median:
  assumes "pv \<noteq> []"
  shows "py_int (series_median (map (\<lambda>(k, c). Some (real c))
           (group_apply series_count xval (groupby pv)))) = Inr \<lfloor>median (x_counts pv)\<rfloor>"
proof -
  have e: "map (\<lambda>(k, c). Some (real c)) (group_apply series_count xval (groupby pv))
           = map (\<lambda>x. Some ((\<lambda>(k, g). real (length (present (map xval g)))) x)) (groupby pv)"
    by (simp add: group_apply_def series_count_def split_def)
  have p: "present (map (\<lambda>(k, c). Some (real c)) (group_apply series_count xval (groupby pv)))
           = x_counts pv"
    unfolding e present_map_Some by (simp add: x_counts_def)
  have ne: "x_counts pv \<noteq> []"
    using assms by (simp add: x_counts_def groupby_Nil)
  have "\<forall>y\<in>set (x_counts pv). 0 \<le> y"
    by (auto simp: x_counts_def)
  then have "0 \<le> median (x_counts pv)"
    using ne by (intro median_nonneg)
  then show ?thesis
    using ne by (simp add: series_median_def p py_int_def)
qed

lemma update_second: "(h @ a # x # xs)[Suc (length h) := y] = h @ a # y # xs"
  using list_update_length [of "h @ [a]" x xs y] by simp

lemma location_statistics_eq:
  assumes "p < length h" "h ! p = Pivoted pv" "pv \<noteq> []"
  shows "location_statistics h p
         = (Inr (fids_table pv, \<lfloor>median (x_counts pv)\<rfloor>),
            h @ [Series (recenter_x (group_apply series_mean xval (groupby pv))),
                 Frame (fids_table pv)])"
proof -
  have pv: "pivoted_at h p = pv"
    using assms(2) by (simp add: pivoted_at_def)
  show ?thesis
    unfolding location_statistics_def pv Let_def x_counts_median [OF assms(3)]
    by (simp add: new_obj_def series_at_def frame_at_def nth_append fids_table_def Let_def
        update_second)
qed

lemma compute_statistics_eq:
  assumes "info < length h" "h ! info = Reports rows"
  shows "\<exists>g. compute_statistics h info = (statistics rows, h @ g)
             \<and> (rows \<noteq> [] \<and> pivoted_table rows \<noteq> [] \<longrightarrow>
                  Series (recenter_x (group_apply series_mean xval
                            (groupby (pivoted_table rows)))) \<in> set g)"
proof -
  define D where "D = concat (map (dist_row rows) measures)"
  define pv where "pv = pivoted_table rows"
  define h1 where "h1 = h @ [Frame []]"
  define h2 where "h2 = h @ [Frame D]"
  define h3 where "h3 = h2 @ [Frame (relabel pair_labels D)]"
  define h4 where "h4 = h3 @ map (\<lambda>row. Pivoted (pivot_row row)) rows"
  define h5 where "h5 = h4 @ [Pivoted pv]"
  define h6 where "h6 = h5 @ [Series (recenter_x (group_apply series_mean xval (groupby pv))),
                              Frame (fids_table pv)]"
  have c: "(if info < length h then h ! info else Frame []) = Reports rows"
    using assms by simp
  have n1: "new_obj h (Frame []) = (length h, h1)"
    by (simp add: new_obj_def h1_def)
  have r1: "reports_at h1 info = rows"
    using assms by (simp add: reports_at_def nth_append h1_def)
  have f2: "fold (dists_step info (length h)) measures h1 = h2"
    unfolding h1_def h2_def D_def by (rule fold_dists_step [OF assms])
  have fa: "frame_at h2 (length h) = D"
    by (simp add: frame_at_def h2_def)
  have n3: "new_obj h2 (Frame (relabel pair_labels D)) = (length h2, h3)"
    by (simp add: new_obj_def h3_def)
  have r3: "reports_at h3 info = rows"
    using assms by (simp add: reports_at_def nth_append h3_def h2_def)
  have pe: "pivot_each h3 rows = ([length h3..<length h3 + length rows], h4)"
    unfolding h4_def by (rule pivot_each_eq)
  have pc: "pd_concat h4 [length h3..<length h3 + length rows]
            = (if rows = [] then Inl ValueError else Inr (concat (map pivot_row rows)))"
    unfolding pd_concat_def h4_def read_pivoted by (cases rows) simp_all
  have n5: "new_obj h4 (Pivoted (dropna_all (concat (map pivot_row rows)))) = (length h4, h5)"
    by (simp add: new_obj_def h5_def pv_def pivoted_table_def)
  have pa: "pivoted_at h5 (length h4) = pv"
    by (simp add: pivoted_at_def h5_def)
  have d5: "frame_at h5 (length h2) = dists_table rows"
    by (simp add: frame_at_def h5_def h4_def h3_def nth_append dists_table_def D_def)
  have d6: "frame_at h6 (length h2) = dists_table rows"
    by (simp add: frame_at_def h6_def h5_def h4_def h3_def nth_append dists_table_def D_def)
  have ls: "pv \<noteq> [] \<Longrightarrow> location_statistics h5 (length h4)
            = (Inr (fids_table pv, \<lfloor>median (x_counts pv)\<rfloor>), h6)"
    unfolding h6_def by (rule location_statistics_eq) (simp_all add: h5_def)
  have g4: "h4 = h @ (Frame D # Frame (relabel pair_labels D)
                        # map (\<lambda>row. Pivoted (pivot_row row)) rows)"
    by (simp add: h4_def h3_def h2_def)
  have g5: "\<exists>g. h5 = h @ g" unfolding h5_def g4 by simp
  have g6: "\<exists>g. h6 = h @ g
                 \<and> Series (recenter_x (group_apply series_mean xval (groupby pv))) \<in> set g"
    unfolding h6_def h5_def g4 by simp
  have main: "compute_statistics h info =
      (if rows = [] then (Inl ValueError, h4)
       else if pv = []
       then (Inr \<lparr>dists = dists_table rows, fids = None,
                  nrep_dists = int (length rows), nrep_fids = 0\<rparr>, h5)
       else (Inr \<lparr>dists = dists_table rows, fids = Some (fids_table pv),
                  nrep_dists = int (length rows),
                  nrep_fids = \<lfloor>median (x_counts pv)\<rfloor>\<rparr>, h6))"
    by (simp add: compute_statistics_def c n1 r1 f2 fa n3 r3 pe pc n5 pa d5 d6 ls Let_def
        del: upt_Suc)
  show ?thesis
    using g4 g5 g6 unfolding main statistics_def pv_def [symmetric] by auto
qed

lemma compute_statistics_other:
  "\<not> (info < length h \<and> (\<exists>rows. h ! info = Reports rows))
   \<Longrightarrow> compute_statistics h info = (Inl TypeError, h)"
  by (cases "h ! info") (auto simp: compute_statistics_def)

lemma compute_statistics_result:
  assumes "info < length h" "h ! info = Reports rows"
  shows "fst (compute_statistics h info) = statistics rows"
  using compute_statistics_eq [OF assms] by auto

lemma compute_statistics_store: "\<exists>g. snd (compute_statistics h info) = h @ g"
proof (cases "info < length h \<and> (\<exists>rows. h ! info = Reports rows)")
  case True
  then obtain rows where "info < length h" "h ! info = Reports rows" by blast
  from compute_statistics_eq [OF this] show ?thesis by auto
next
  case False
  then show ?thesis by (simp add: compute_statistics_other)
qed

lemma statistics_returns: "rows \<noteq> [] \<Longrightarrow> \<exists>r. statistics rows = Inr r"
  by (simp add: statistics_def)

lemma statistics_nrep_dists: "statistics rows = Inr r \<Longrightarrow> nrep_dists r = int (length rows)"
  by (auto simp: statistics_def split: if_splits)


section \<open>The claims\<close>

text \<open>
  In every statement below the input table is the object \<open>Reports rows\<close> at the address
  \<open>info\<close> of the store \<open>h\<close>.
\<close>

subsection \<open>C4: the separation report count\<close>

text \<open>
  C4. Whenever \<^verbatim>\<open>compute_statistics\<close> returns, the separation report count
  \<^verbatim>\<open>nrep_dists\<close> is the number of rows of the input table, whatever is missing in the
  distance fields; and it returns for every table that has a row.
\<close>

theorem nrep_dists_is_row_count:
  assumes "info < length h" "h ! info = Reports rows"
  shows "(rows \<noteq> [] \<longrightarrow> (\<exists>r. fst (compute_statistics h info) = Inr r))
         \<and> (\<forall>r. fst (compute_statistics h info) = Inr r \<longrightarrow> nrep_dists r = int (length rows))"
  unfolding compute_statistics_result [OF assms]
  using statistics_returns statistics_nrep_dists by blast

theorem nrep_dists_is_row_count_witness:
  "(0::nat) < length [Reports [blank, blank(''lr_dist'' := Some 4)]]
   \<and> (\<exists>r. fst (compute_statistics [Reports [blank, blank(''lr_dist'' := Some 4)]] 0) = Inr r
          \<and> nrep_dists r = 2)"
  using nrep_dists_is_row_count [of 0 "[Reports [blank, blank(''lr_dist'' := Some 4)]]"
      "[blank, blank(''lr_dist'' := Some 4)]"]
  by auto

subsection \<open>C10: the printed text has no colon\<close>



subsection \<open>Evaluation on sample tables\<close>

lemma fid_names_eq: "fid_names = [''P1'', ''P2'', ''P3'', ''P4'', ''P5'', ''P6'', ''P7'', ''P8'']"
  by (simp add: fid_names_def str_nat.simps digit_def upt_rec)

lemma pivot_row_eq:
  "pivot_row row =
    [\<lparr>fid_name = ''P1'', xval = row ''llx'', yval = row ''lly'', angle = arctan2 (row ''lly'') (row ''llx'')\<rparr>,
     \<lparr>fid_name = ''P2'', xval = row ''urx'', yval = row ''ury'', angle = arctan2 (row ''ury'') (row ''urx'')\<rparr>,
     \<lparr>fid_name = ''P3'', xval = row ''ulx'', yval = row ''uly'', angle = arctan2 (row ''uly'') (row ''ulx'')\<rparr>,
     \<lparr>fid_name = ''P4'', xval = row ''lrx'', yval = row ''lry'', angle = arctan2 (row ''lry'') (row ''lrx'')\<rparr>,
     \<lparr>fid_name = ''P5'', xval = row ''mlx'', yval = row ''mly'', angle = arctan2 (row ''mly'') (row ''mlx'')\<rparr>,
     \<lparr>fid_name = ''P6'', xval = row ''mrx'', yval = row ''mry'', angle = arctan2 (row ''mry'') (row ''mrx'')\<rparr>,
     \<lparr>fid_name = ''P7'', xval = row ''mtx'', yval = row ''mty'', angle = arctan2 (row ''mty'') (row ''mtx'')\<rparr>,
     \<lparr>fid_name = ''P8'', xval = row ''mbx'', yval = row ''mby'', angle = arctan2 (row ''mby'') (row ''mbx'')\<rparr>]"
  by (simp add: pivot_row_def fid_names_eq col_names_def compute_angle_def)

lemma pivoted_table_Nil: "pivoted_table [] = []"
  by (simp add: pivoted_table_def dropna_all_def)

lemma pivoted_table_Cons:
  "pivoted_table (row # rows) = dropna_all (pivot_row row) @ pivoted_table rows"
  by (simp add: pivoted_table_def dropna_all_def)

lemma pivoted_y_only:
  "pivoted_table [blank(''lly'' := Some 0)]
   = [\<lparr>fid_name = ''P1'', xval = None, yval = Some 0, angle = None\<rparr>]"
  by (simp add: pivoted_table_Cons pivoted_table_Nil pivot_row_eq dropna_all_def isna_def
      blank_def arctan2_def)



lemma statistics_some:
  "pivoted_table rows \<noteq> [] \<Longrightarrow>
   statistics rows = Inr \<lparr>dists = dists_table rows, fids = Some (fids_table (pivoted_table rows)),
                           nrep_dists = int (length rows),
                           nrep_fids = \<lfloor>median (x_counts (pivoted_table rows))\<rfloor>\<rparr>"
  by (auto simp: statistics_def pivoted_table_Nil)


subsection \<open>C1: the location report count\<close>




subsection \<open>C6: no observation at all\<close>

lemma pivoted_all_missing:
  assumes "\<forall>row\<in>set rows. \<forall>cc\<in>set col_names. isna (row (cc @ ''x'')) \<and> isna (row (cc @ ''y''))"
  shows "pivoted_table rows = []"
  using assms
proof (induction rows)
  case Nil
  then show ?case by (simp add: pivoted_table_Nil)
next
  case (Cons row rows)
  have "dropna_all (pivot_row row) = []"
    using Cons.prems by (simp add: pivot_row_eq dropna_all_def col_names_def)
  then show ?case
    using Cons by (simp add: pivoted_table_Cons)
qed

text \<open>
  C6 as stated fails on the table without rows: every marker value of every report is
  (vacuously) missing, but \<^verbatim>\<open>pd.concat\<close> gets an empty list and raises ValueError, so
  nothing is returned.
\<close>

theorem empty_table_counterexample:
  "fst (compute_statistics [Reports []] 0) = Inl ValueError"
proof -
  have "fst (compute_statistics [Reports []] 0) = statistics []"
    by (rule compute_statistics_result) simp_all
  then show ?thesis by (simp add: statistics_def)
qed

text \<open>
  C6, amended. For every input table with at least one row in which the x and y values
  of every marker are missing in all reports, \<^verbatim>\<open>compute_statistics\<close> returns an absent
  marker-statistics result and a marker report count of 0.
\<close>

theorem no_observations_gives_none:
  assumes "info < length h" "h ! info = Reports rows" "rows \<noteq> []"
    and "\<forall>row\<in>set rows. \<forall>cc\<in>set col_names. isna (row (cc @ ''x'')) \<and> isna (row (cc @ ''y''))"
  shows "\<exists>r. fst (compute_statistics h info) = Inr r \<and> fids r = None \<and> nrep_fids r = 0"
  unfolding compute_statistics_result [OF assms(1,2)]
  using assms(3) pivoted_all_missing [OF assms(4)] by (simp add: statistics_def)

theorem no_observations_gives_none_witness:
  "\<exists>r. fst (compute_statistics [Reports [blank(''lr_dist'' := Some 4)]] 0) = Inr r
       \<and> fids r = None \<and> nrep_fids r = 0"
  using no_observations_gives_none [of 0 "[Reports [blank(''lr_dist'' := Some 4)]]"
      "[blank(''lr_dist'' := Some 4)]"]
  by (simp add: col_names_def isna_def blank_def)

subsection \<open>Recentring\<close>










lemma fmt3_None: "fmt3 None = ''nan''"
  by (simp add: fmt3_def)



subsection \<open>C5: the recentred means\<close>





subsection \<open>The rows of the location table\<close>

lemma map_of_keyed: "map_of (map (\<lambda>k. (k, f k)) ks) k = (if k \<in> set ks then Some (f k) else None)"
  by (induction ks) simp_all

lemma set_column_new: "set_column [] c (map (\<lambda>k. (k, v k)) ks) = map (\<lambda>k. (k, [(c, v k)])) ks"
  by (simp add: set_column_def)

lemma set_column_keyed:
  "ks \<noteq> [] \<Longrightarrow>
   set_column (map (\<lambda>k. (k, cs k)) ks) c (map (\<lambda>k. (k, v k)) ks)
   = map (\<lambda>k. (k, AList.update c (v k) (cs k))) ks"
  by (simp add: set_column_def map_of_keyed)

lemma series_add_keyed:
  "series_add (map (\<lambda>k. (k, a k)) ks) (map (\<lambda>k. (k, b k)) ks) = map (\<lambda>k. (k, a k @ b k)) ks"
  by (simp add: series_add_def zip_map_map zip_same_conv_map)

lemma series_map_keyed: "series_map f (map (\<lambda>k. (k, a k)) ks) = map (\<lambda>k. (k, f (a k))) ks"
  by (simp add: series_map_def)

lemma group_apply_keyed:
  "group_apply f col (map (\<lambda>k. (k, G k)) ks) = map (\<lambda>k. (k, f (map col (G k)))) ks"
  by (simp add: group_apply_def)

lemma recenter_x_keyed:
  "recenter_x (map (\<lambda>k. (k, a k)) ks)
   = map (\<lambda>k. (k, py_sub (a k) (series_min (map a ks)))) ks"
  by (simp add: recenter_x_def series_map_keyed comp_def)

lemma recenter_y_keyed:
  "recenter_y (map (\<lambda>k. (k, a k)) ks)
   = map (\<lambda>k. (k, py_sub (py_neg (a k)) (series_min (map (\<lambda>k. py_neg (a k)) ks)))) ks"
  by (simp add: recenter_y_def series_map_keyed comp_def)

lemma fids_shape:
  "ks \<noteq> [] \<Longrightarrow>
   set_column
     (set_column
        (set_column [] ''x''
           (series_add (series_map (\<lambda>s. fmt3 s @ pm) (map (\<lambda>k. (k, xm k)) ks))
                       (series_map fmt3 (map (\<lambda>k. (k, sx k)) ks))))
        ''y''
        (series_add (series_map (\<lambda>s. fmt3 s @ pm) (map (\<lambda>k. (k, ym k)) ks))
                    (series_map fmt3 (map (\<lambda>k. (k, sy k)) ks))))
     ''angle'' (series_map f (map (\<lambda>k. (k, a k)) ks))
   = map (\<lambda>k. (k, [(''x'', fmt3 (xm k) @ pm @ fmt3 (sx k)),
                    (''y'', fmt3 (ym k) @ pm @ fmt3 (sy k)),
                    (''angle'', f (a k))])) ks"
  by (simp add: series_map_keyed series_add_keyed set_column_new set_column_keyed)

lemma fids_table_rows:
  assumes "pv \<noteq> []"
  shows "\<exists>xm ym a. fids_table pv =
    map (\<lambda>k. (k, [(''x'', fmt3 (xm k) @ pm
                         @ fmt3 (series_std (map xval (filter (\<lambda>r. fid_name r = k) pv)))),
                   (''y'', fmt3 (ym k) @ pm
                         @ fmt3 (series_std (map yval (filter (\<lambda>r. fid_name r = k) pv)))),
                   (''angle'', a k)]))
        (sort (remdups (map fid_name pv)))"
proof -
  have ne: "sort (remdups (map fid_name pv)) \<noteq> []"
    using assms groupby_Nil [of pv] by (simp add: groupby_def)
  show ?thesis
    unfolding fids_table_def groupby_def Let_def group_apply_keyed recenter_x_keyed
      recenter_y_keyed fids_shape [OF ne]
    by (intro exI) (rule refl)
qed

lemma length_present_le: "length (present vs) \<le> length vs"
  by (induction vs rule: present.induct) simp_all

lemma series_std_single: "length vs = 1 \<Longrightarrow> series_std vs = None"
  using length_present_le [of vs] by (simp add: series_std_def)

subsection \<open>C7: a marker observed once\<close>

text \<open>
  C7. For every input table in which a marker \<open>k\<close> has exactly one remaining observation,
  \<^verbatim>\<open>compute_statistics\<close> returns a marker table with a row for \<open>k\<close> whose x and y
  cells both end in the separator followed by \<^verbatim>\<open>nan\<close>: the sample standard deviation of
  one observation is NaN and nothing replaces it.
\<close>

theorem single_observation_std_nan:
  assumes "info < length h" "h ! info = Reports rows"
    and "length (filter (\<lambda>r. fid_name r = k) (pivoted_table rows)) = 1"
  shows "\<exists>r f cells vx vy.
           fst (compute_statistics h info) = Inr r \<and> fids r = Some f
           \<and> map_of f k = Some cells
           \<and> map_of cells ''x'' = Some (vx @ pm @ ''nan'')
           \<and> map_of cells ''y'' = Some (vy @ pm @ ''nan'')"
proof -
  let ?pv = "pivoted_table rows"
  let ?g = "filter (\<lambda>r. fid_name r = k) ?pv"
  have g: "?g \<noteq> []" using assms(3) by auto
  then have ne: "?pv \<noteq> []" by auto
  have "\<exists>r. r \<in> set ?g" using g by (meson last_in_set)
  then have k: "k \<in> set (sort (remdups (map fid_name ?pv)))" by auto
  have sx: "series_std (map xval ?g) = None" and sy: "series_std (map yval ?g) = None"
    using assms(3) by (simp_all add: series_std_single)
  obtain xm ym a where f: "fids_table ?pv =
    map (\<lambda>k. (k, [(''x'', fmt3 (xm k) @ pm
                         @ fmt3 (series_std (map xval (filter (\<lambda>r. fid_name r = k) ?pv)))),
                   (''y'', fmt3 (ym k) @ pm
                         @ fmt3 (series_std (map yval (filter (\<lambda>r. fid_name r = k) ?pv)))),
                   (''angle'', a k)]))
        (sort (remdups (map fid_name ?pv)))"
    using fids_table_rows [OF ne] by blast
  have "map_of (fids_table ?pv) k
        = Some [(''x'', fmt3 (xm k) @ pm @ ''nan''), (''y'', fmt3 (ym k) @ pm @ ''nan''),
                (''angle'', a k)]"
    unfolding f map_of_keyed using k by (simp add: sx sy fmt3_None)
  then show ?thesis
    unfolding compute_statistics_result [OF assms(1,2)] statistics_some [OF ne]
    by simp
qed

theorem single_observation_std_nan_witness:
  "\<exists>r f cells vx vy.
     fst (compute_statistics [Reports [blank(''lly'' := Some 0)]] 0) = Inr r \<and> fids r = Some f
     \<and> map_of f ''P1'' = Some cells
     \<and> map_of cells ''x'' = Some (vx @ pm @ ''nan'')
     \<and> map_of cells ''y'' = Some (vy @ pm @ ''nan'')"
  using single_observation_std_nan [of 0 "[Reports [blank(''lly'' := Some 0)]]"
      "[blank(''lly'' := Some 0)]" "''P1''"]
  by (simp add: pivoted_y_only)

subsection \<open>The rows of the separation table\<close>

lemma digit_not_t: "d < 10 \<Longrightarrow> digit d \<noteq> CHR ''t''"
proof -
  assume "d < 10"
  then have "d \<in> {0, 1, 2, 3, 4, 5, 6, 7, 8, 9}" by auto
  then show ?thesis by (auto simp: digit_def)
qed

lemma fmt3_last: "fmt3 v \<noteq> [] \<and> last (fmt3 v) \<noteq> CHR ''t''"
  by (cases v) (simp_all add: fmt3_def Let_def digit_not_t)

lemma replace_value_other:
  assumes "last s \<noteq> CHR ''t''"
  shows "replace_value pair_labels s = s"
proof -
  have "s \<noteq> ''lr_dist''" "s \<noteq> ''tb_dist''" "s \<noteq> ''llur_dist''" "s \<noteq> ''ullr_dist''"
    using assms by fastforce+
  then show ?thesis
    by (simp add: replace_value_def pair_labels_def)
qed

lemma replace_value_fmt3: "replace_value pair_labels (fmt3 v) = fmt3 v"
  using fmt3_last [of v] by (simp add: replace_value_other)

lemma replace_value_mean: "replace_value pair_labels (fmt3 v @ pm @ fmt3 w) = fmt3 v @ pm @ fmt3 w"
  using fmt3_last [of w] by (intro replace_value_other) simp

lemma relabel_dist_row:
  assumes "(meas, label) \<in> set pair_labels"
  shows "relabel pair_labels (dist_row rows meas)
   = (let c = map (\<lambda>row. row meas) rows
      in if present c = [] then []
         else [(label, [(''mean'', fmt3 (series_mean c) @ pm @ fmt3 (series_std c)),
                        (''median'', fmt3 (series_median c))])])"
proof -
  have l: "replace_value pair_labels meas = label"
    using assms by (auto simp: replace_value_def pair_labels_def)
  show ?thesis
    by (simp add: relabel_def dist_row_def Let_def l replace_value_fmt3 replace_value_mean)
qed

lemma dists_table_eq:
  "dists_table rows
   = concat (map (\<lambda>(meas, label).
       let c = map (\<lambda>row. row meas) rows
       in if present c = [] then []
          else [(label, [(''mean'', fmt3 (series_mean c) @ pm @ fmt3 (series_std c)),
                         (''median'', fmt3 (series_median c))])]) pair_labels)"
proof -
  have r: "\<And>a b. relabel pair_labels (a @ b) = relabel pair_labels a @ relabel pair_labels b"
    by (simp add: relabel_def)
  have e: "relabel pair_labels [] = []"
    by (simp add: relabel_def)
  have m: "(''lr_dist'', ''P5 - P6'') \<in> set pair_labels" "(''tb_dist'', ''P7 - P8'') \<in> set pair_labels"
    "(''llur_dist'', ''P1 - P2'') \<in> set pair_labels" "(''ullr_dist'', ''P3 - P4'') \<in> set pair_labels"
    by (simp_all add: pair_labels_def)
  have "dists_table rows
        = relabel pair_labels (dist_row rows ''lr_dist'')
          @ relabel pair_labels (dist_row rows ''tb_dist'')
          @ relabel pair_labels (dist_row rows ''llur_dist'')
          @ relabel pair_labels (dist_row rows ''ullr_dist'')"
    by (simp add: dists_table_def measures_def r e)
  then show ?thesis
    unfolding relabel_dist_row [OF m(1)] relabel_dist_row [OF m(2)]
      relabel_dist_row [OF m(3)] relabel_dist_row [OF m(4)]
    by (simp add: pair_labels_def)
qed



subsection \<open>C3: which pairs appear, and over which reports\<close>


lemma mean_2_4: "mean [2, 4] = 3" and std_2_4: "sample_std [2, 4] = sqrt 2"
  and median_2_4: "median [2, 4] = 3"
  by (simp_all add: mean_def sample_std_def median_def)


subsection \<open>C2: the example of the specification\<close>

lemma floor_sqrt2: "\<lfloor>sqrt 2 * 1000\<rfloor> = 1414"
proof -
  have e: "sqrt 2 * 1000 = sqrt 2000000"
    using real_sqrt_mult [of 2 1000000] real_sqrt_abs2 [of 1000] by simp
  have lo: "1414 \<le> sqrt 2000000"
    by (rule real_le_rsqrt) simp
  have hi: "sqrt 2000000 < 1415"
    by (rule real_less_lsqrt) simp_all
  show ?thesis
    unfolding e using lo hi by (simp add: floor_eq_iff)
qed

lemma frac_sqrt2: "sqrt 2 * 1000 - 1414 < 1 / 2"
proof -
  have e: "sqrt 2 * 1000 = sqrt 2000000"
    using real_sqrt_mult [of 2 1000000] real_sqrt_abs2 [of 1000] by simp
  have "sqrt 2000000 < 2829 / 2"
    by (rule real_less_lsqrt) (simp_all add: power2_eq_square)
  then show ?thesis unfolding e by simp
qed

lemma fmt3_sqrt2: "fmt3 (Some (sqrt 2)) = ''1.414''"
proof -
  have "round_half_even (sqrt 2 * 1000) = 1414"
    using frac_sqrt2 by (simp add: round_half_even_def floor_sqrt2)
  then show ?thesis
    by (simp add: fmt3_def str_nat.simps digit_def del: real_sqrt_gt_0_iff)
qed

lemma fmt3_three: "fmt3 (Some 3) = ''3.000''"
  by (simp add: fmt3_def round_half_even_def str_nat.simps digit_def)

lemma pivoted_example:
  "pivoted_table
     [blank(''llx'' := Some 0, ''lly'' := Some 0, ''urx'' := Some 1, ''ury'' := Some 1,
            ''lr_dist'' := Some 2),
      blank(''lr_dist'' := Some 4)]
   = [\<lparr>fid_name = ''P1'', xval = Some 0, yval = Some 0, angle = Some 0\<rparr>,
      \<lparr>fid_name = ''P2'', xval = Some 1, yval = Some 1, angle = Some (pi / 4)\<rparr>]"
  by (simp add: pivoted_table_Cons pivoted_table_Nil pivot_row_eq dropna_all_def isna_def
      blank_def arctan2_def arctan_one)

lemma dists_example:
  "dists_table
     [blank(''llx'' := Some 0, ''lly'' := Some 0, ''urx'' := Some 1, ''ury'' := Some 1,
            ''lr_dist'' := Some 2),
      blank(''lr_dist'' := Some 4)]
   = [(''P5 - P6'', [(''mean'', ''3.000'' @ pm @ ''1.414''), (''median'', ''3.000'')])]"
  unfolding dists_table_eq
  by (simp add: pair_labels_def blank_def series_mean_def series_std_def series_median_def
      mean_2_4 std_2_4 median_2_4 fmt3_three fmt3_sqrt2)

lemma fids_table_names: "pv \<noteq> [] \<Longrightarrow> map fst (fids_table pv) = sort (remdups (map fid_name pv))"
  using fids_table_rows [of pv] by (auto simp: comp_def)

text \<open>
  C2. For the table of two reports, the first with \<^verbatim>\<open>llx = 0, lly = 0, urx = 1, ury = 1,
  lr_dist = 2.0\<close> and the second with \<^verbatim>\<open>lr_dist = 4.0\<close> only, \<^verbatim>\<open>compute_statistics\<close>
  returns the separation table with the single row \<^verbatim>\<open>P5 - P6\<close>, mean
  \<^verbatim>\<open>3.000 \<plusminus> 1.414\<close> and median \<^verbatim>\<open>3.000\<close>, the separation report count 2, and a
  marker table with the rows P1 and P2 only.
\<close>

theorem example_table:
  "\<exists>r f. fst (compute_statistics
              [Reports [blank(''llx'' := Some 0, ''lly'' := Some 0, ''urx'' := Some 1,
                              ''ury'' := Some 1, ''lr_dist'' := Some 2),
                        blank(''lr_dist'' := Some 4)]] 0) = Inr r
         \<and> dists r = [(''P5 - P6'', [(''mean'', ''3.000'' @ pm @ ''1.414''),
                                    (''median'', ''3.000'')])]
         \<and> nrep_dists r = 2
         \<and> fids r = Some f \<and> map fst f = [''P1'', ''P2'']"
proof -
  let ?rows = "[blank(''llx'' := Some 0, ''lly'' := Some 0, ''urx'' := Some 1,
                       ''ury'' := Some 1, ''lr_dist'' := Some 2),
                blank(''lr_dist'' := Some 4)]"
  have ne: "pivoted_table ?rows \<noteq> []"
    unfolding pivoted_example by simp
  have n: "map fst (fids_table (pivoted_table ?rows)) = [''P1'', ''P2'']"
    unfolding fids_table_names [OF ne] unfolding pivoted_example by simp
  have "fst (compute_statistics [Reports ?rows] 0) = statistics ?rows"
    by (rule compute_statistics_result) simp_all
  then show ?thesis
    unfolding statistics_some [OF ne] by (simp add: dists_example n)
qed

subsection \<open>C8 and C9: the store\<close>

lemma compute_statistics_keeps:
  assumes "p < length h"
  shows "p < length (snd (compute_statistics h info))
         \<and> snd (compute_statistics h info) ! p = h ! p"
proof -
  obtain g where "snd (compute_statistics h info) = h @ g"
    using compute_statistics_store by blast
  then show ?thesis
    using assms by (simp add: nth_append)
qed

lemma nice_table_objects:
  "objects (snd (nice_table to_markdown w info)) = snd (compute_statistics (objects w) info)"
  by (cases "compute_statistics (objects w) info")
     (auto simp: nice_table_def Let_def split: sum.splits)

text \<open>
  C8. A second call of \<^verbatim>\<open>compute_statistics\<close> on the same input table, run in the store
  that the first call has left, gives the same outcome as the first: the same two
  tables and the same two counts (or the same error).
\<close>

theorem second_call_same_output:
  assumes "info < length h" "h ! info = Reports rows"
  shows "fst (compute_statistics (snd (compute_statistics h info)) info)
         = fst (compute_statistics h info)"
proof -
  let ?h' = "snd (compute_statistics h info)"
  have "info < length ?h'" and "?h' ! info = Reports rows"
    using compute_statistics_keeps [OF assms(1), of info] assms(2) by simp_all
  then have "fst (compute_statistics ?h' info) = statistics rows"
    by (rule compute_statistics_result)
  then show ?thesis
    by (simp add: compute_statistics_result [OF assms])
qed

theorem second_call_same_output_witness:
  "fst (compute_statistics (snd (compute_statistics
          [Reports [blank(''llx'' := Some 0, ''lly'' := Some 0, ''lr_dist'' := Some 2)]] 0)) 0)
   = fst (compute_statistics
          [Reports [blank(''llx'' := Some 0, ''lly'' := Some 0, ''lr_dist'' := Some 2)]] 0)"
  using second_call_same_output
    [of 0 "[Reports [blank(''llx'' := Some 0, ''lly'' := Some 0, ''lr_dist'' := Some 2)]]"
        "[blank(''llx'' := Some 0, ''lly'' := Some 0, ''lr_dist'' := Some 2)]"]
  by simp

text \<open>
  C9. \<^verbatim>\<open>compute_statistics\<close> and \<^verbatim>\<open>nice_table\<close> leave the input table as it was: the
  object at the address of the input holds the same rows after the call. (Every object
  that existed before the call is unchanged; the calls only add objects.)
\<close>

theorem input_table_unchanged:
  assumes "info < length h" "h ! info = Reports rows"
  shows "snd (compute_statistics h info) ! info = Reports rows
         \<and> objects (snd (nice_table to_markdown \<lparr>objects = h, stdout = out\<rparr> info)) ! info
           = Reports rows
         \<and> (\<forall>p<length h. snd (compute_statistics h info) ! p = h ! p)"
  using compute_statistics_keeps [of _ h info] assms
  by (simp add: nice_table_objects)

theorem input_table_unchanged_witness:
  "snd (compute_statistics
          [Reports [blank(''llx'' := Some 0, ''lly'' := Some 0, ''lr_dist'' := Some 2)]] 0) ! 0
   = Reports [blank(''llx'' := Some 0, ''lly'' := Some 0, ''lr_dist'' := Some 2)]
   \<and> objects (snd (nice_table sample_markdown
        \<lparr>objects = [Reports [blank(''llx'' := Some 0, ''lly'' := Some 0, ''lr_dist'' := Some 2)]],
         stdout = []\<rparr> 0)) ! 0
     = Reports [blank(''llx'' := Some 0, ''lly'' := Some 0, ''lr_dist'' := Some 2)]"
  using input_table_unchanged
    [of 0 "[Reports [blank(''llx'' := Some 0, ''lly'' := Some 0, ''lr_dist'' := Some 2)]]"
        "[blank(''llx'' := Some 0, ''lly'' := Some 0, ''lr_dist'' := Some 2)]"
        sample_markdown "[]"]
  by simp

end
